theory Spec2Isabelle
  imports Complex_Main "HOL-Library.Word"
begin

section \<open>Numeric types and fixed-size vectors and matrices\<close>

text \<open>
  The program \<^verbatim>\<open>draw_scene.cc\<close> computes with \<^verbatim>\<open>GLfloat\<close> (32-bit IEEE floats) and with the
  fixed-size Eigen types \<^verbatim>\<open>Vector3f\<close>, \<^verbatim>\<open>Vector4f\<close>, \<^verbatim>\<open>Matrix3f\<close> and \<^verbatim>\<open>Matrix4f\<close>.
  Here a \<^verbatim>\<open>GLfloat\<close> is a real number: rounding, overflow, infinities and NaN are not part
  of the model, and the operations are the exact ones that the floating-point code
  approximates. The one constant of the program that is not exactly representable,
  \<open>kHalfPi\<close>, is kept at its single-precision value, because the cotangent near its poles
  depends on the distance of that value to \<open>pi / 2\<close>. A matrix is kept as its rows, and
  \<open>set_coeff\<close> is Eigen's write \<^verbatim>\<open>m(i, j) = x\<close>.
\<close>

type_synonym GLfloat = real

type_synonym GLuint = "32 word"

datatype vec3 = Vec3 (vx: GLfloat) (vy: GLfloat) (vz: GLfloat)

datatype vec4 = Vec4 (hx: GLfloat) (hy: GLfloat) (hz: GLfloat) (hw: GLfloat)

datatype mat3 = Mat3 (r0: vec3) (r1: vec3) (r2: vec3)

datatype mat4 = Mat4 (row0: vec4) (row1: vec4) (row2: vec4) (row3: vec4)

definition Identity3 :: mat3 where
  "Identity3 = Mat3 (Vec3 1 0 0) (Vec3 0 1 0) (Vec3 0 0 1)"

definition Identity4 :: mat4 where
  "Identity4 = Mat4 (Vec4 1 0 0 0) (Vec4 0 1 0 0) (Vec4 0 0 1 0) (Vec4 0 0 0 1)"

text \<open>\<^verbatim>\<open>v.homogeneous()\<close>: the vector with a fourth coordinate 1 appended.\<close>

definition homogeneous :: "vec3 \<Rightarrow> vec4" where
  "homogeneous v = Vec4 (vx v) (vy v) (vz v) 1"

definition vec3_add :: "vec3 \<Rightarrow> vec3 \<Rightarrow> vec3" where
  "vec3_add a b = Vec3 (vx a + vx b) (vy a + vy b) (vz a + vz b)"

definition squaredNorm :: "vec3 \<Rightarrow> GLfloat" where
  "squaredNorm v = vx v * vx v + vy v * vy v + vz v * vz v"

text \<open>
  \<^verbatim>\<open>v.normalized()\<close> of Eigen (library code, not part of the repository): the vector
  divided by its norm, and the vector itself when its squared norm is not positive.
\<close>

definition normalized :: "vec3 \<Rightarrow> vec3" where
  "normalized v =
     (let z = squaredNorm v in
      if z > 0 then Vec3 (vx v / sqrt z) (vy v / sqrt z) (vz v / sqrt z) else v)"

definition dot3 :: "vec3 \<Rightarrow> vec3 \<Rightarrow> GLfloat" where
  "dot3 a b = vx a * vx b + vy a * vy b + vz a * vz b"

definition dot4 :: "vec4 \<Rightarrow> vec4 \<Rightarrow> GLfloat" where
  "dot4 a b = hx a * hx b + hy a * hy b + hz a * hz b + hw a * hw b"

definition col3 :: "mat3 \<Rightarrow> nat \<Rightarrow> vec3" where
  "col3 m j =
     (if j = 0 then Vec3 (vx (r0 m)) (vx (r1 m)) (vx (r2 m))
      else if j = 1 then Vec3 (vy (r0 m)) (vy (r1 m)) (vy (r2 m))
      else Vec3 (vz (r0 m)) (vz (r1 m)) (vz (r2 m)))"

definition col4 :: "mat4 \<Rightarrow> nat \<Rightarrow> vec4" where
  "col4 m j =
     (if j = 0 then Vec4 (hx (row0 m)) (hx (row1 m)) (hx (row2 m)) (hx (row3 m))
      else if j = 1 then Vec4 (hy (row0 m)) (hy (row1 m)) (hy (row2 m)) (hy (row3 m))
      else if j = 2 then Vec4 (hz (row0 m)) (hz (row1 m)) (hz (row2 m)) (hz (row3 m))
      else Vec4 (hw (row0 m)) (hw (row1 m)) (hw (row2 m)) (hw (row3 m)))"

definition transpose3 :: "mat3 \<Rightarrow> mat3" where
  "transpose3 m = Mat3 (col3 m 0) (col3 m 1) (col3 m 2)"

definition mat3_vec :: "mat3 \<Rightarrow> vec3 \<Rightarrow> vec3" where
  "mat3_vec m v = Vec3 (dot3 (r0 m) v) (dot3 (r1 m) v) (dot3 (r2 m) v)"

definition mat4_vec :: "mat4 \<Rightarrow> vec4 \<Rightarrow> vec4" where
  "mat4_vec m v = Vec4 (dot4 (row0 m) v) (dot4 (row1 m) v) (dot4 (row2 m) v) (dot4 (row3 m) v)"

definition row3_mat :: "vec3 \<Rightarrow> mat3 \<Rightarrow> vec3" where
  "row3_mat r b = Vec3 (dot3 r (col3 b 0)) (dot3 r (col3 b 1)) (dot3 r (col3 b 2))"

definition row4_mat :: "vec4 \<Rightarrow> mat4 \<Rightarrow> vec4" where
  "row4_mat r b = Vec4 (dot4 r (col4 b 0)) (dot4 r (col4 b 1)) (dot4 r (col4 b 2)) (dot4 r (col4 b 3))"

text \<open>The matrix product \<^verbatim>\<open>a * b\<close>.\<close>

definition mat3_mul :: "mat3 \<Rightarrow> mat3 \<Rightarrow> mat3" where
  "mat3_mul a b = Mat3 (row3_mat (r0 a) b) (row3_mat (r1 a) b) (row3_mat (r2 a) b)"

definition mat4_mul :: "mat4 \<Rightarrow> mat4 \<Rightarrow> mat4" where
  "mat4_mul a b =
     Mat4 (row4_mat (row0 a) b) (row4_mat (row1 a) b) (row4_mat (row2 a) b) (row4_mat (row3 a) b)"

definition vec4_set :: "vec4 \<Rightarrow> nat \<Rightarrow> GLfloat \<Rightarrow> vec4" where
  "vec4_set v j x =
     (if j = 0 then Vec4 x (hy v) (hz v) (hw v)
      else if j = 1 then Vec4 (hx v) x (hz v) (hw v)
      else if j = 2 then Vec4 (hx v) (hy v) x (hw v)
      else if j = 3 then Vec4 (hx v) (hy v) (hz v) x
      else v)"

text \<open>
  \<^verbatim>\<open>m(i, j) = x\<close>. The program only uses literal indices below 4; an index out of range
  (an assertion failure in Eigen) leaves the matrix as it is here.
\<close>

definition set_coeff :: "mat4 \<Rightarrow> nat \<Rightarrow> nat \<Rightarrow> GLfloat \<Rightarrow> mat4" where
  "set_coeff m i j x =
     (if i = 0 then Mat4 (vec4_set (row0 m) j x) (row1 m) (row2 m) (row3 m)
      else if i = 1 then Mat4 (row0 m) (vec4_set (row1 m) j x) (row2 m) (row3 m)
      else if i = 2 then Mat4 (row0 m) (row1 m) (vec4_set (row2 m) j x) (row3 m)
      else if i = 3 then Mat4 (row0 m) (row1 m) (row2 m) (vec4_set (row3 m) j x)
      else m)"

text \<open>\<^verbatim>\<open>m.col(3) = v\<close>: the last column replaced.\<close>

definition set_col3 :: "mat4 \<Rightarrow> vec4 \<Rightarrow> mat4" where
  "set_col3 m v =
     Mat4 (vec4_set (row0 m) 3 (hx v)) (vec4_set (row1 m) 3 (hy v))
          (vec4_set (row2 m) 3 (hz v)) (vec4_set (row3 m) 3 (hw v))"

text \<open>\<^verbatim>\<open>m.block(0, 0, 3, 3)\<close> read, and \<^verbatim>\<open>m.block(0, 0, 3, 3) = b\<close>.\<close>

definition block33 :: "mat4 \<Rightarrow> mat3" where
  "block33 m =
     Mat3 (Vec3 (hx (row0 m)) (hy (row0 m)) (hz (row0 m)))
          (Vec3 (hx (row1 m)) (hy (row1 m)) (hz (row1 m)))
          (Vec3 (hx (row2 m)) (hy (row2 m)) (hz (row2 m)))"

definition set_block33 :: "mat4 \<Rightarrow> mat3 \<Rightarrow> mat4" where
  "set_block33 m b =
     Mat4 (Vec4 (vx (r0 b)) (vy (r0 b)) (vz (r0 b)) (hw (row0 m)))
          (Vec4 (vx (r1 b)) (vy (r1 b)) (vz (r1 b)) (hw (row1 m)))
          (Vec4 (vx (r2 b)) (vy (r2 b)) (vz (r2 b)) (hw (row2 m)))
          (row3 m)"

text \<open>
  \<^verbatim>\<open>Eigen::AngleAxisf(angle, axis).matrix()\<close> (library code, not part of the repository).
  The constructor stores the axis as it is given, and the conversion fills the matrix
  from \<open>sin angle * axis\<close>, \<open>cos angle\<close> and \<open>(1 - cos angle) * axis\<close>, in this order of
  coefficients; the axis is never normalised.
\<close>

definition AngleAxis_matrix :: "GLfloat \<Rightarrow> vec3 \<Rightarrow> mat3" where
  "AngleAxis_matrix angle axis =
     (let sin_axis = Vec3 (sin angle * vx axis) (sin angle * vy axis) (sin angle * vz axis);
          c = cos angle;
          cos1_axis = Vec3 ((1 - c) * vx axis) ((1 - c) * vy axis) ((1 - c) * vz axis);
          t01 = vx cos1_axis * vy axis;
          t02 = vx cos1_axis * vz axis;
          t12 = vy cos1_axis * vz axis
      in Mat3 (Vec3 (vx cos1_axis * vx axis + c) (t01 - vz sin_axis) (t02 + vy sin_axis))
              (Vec3 (t01 + vz sin_axis) (vy cos1_axis * vy axis + c) (t12 - vx sin_axis))
              (Vec3 (t02 - vy sin_axis) (t12 + vx sin_axis) (vz cos1_axis * vz axis + c)))"

section \<open>The helper functions of \<^verbatim>\<open>draw_scene.cc\<close>\<close>

definition ComputeTranslation :: "vec3 \<Rightarrow> mat4" where
  "ComputeTranslation offset =
     (let transformation = Identity4 in set_col3 transformation (homogeneous offset))"

definition ComputeRotation :: "vec3 \<Rightarrow> GLfloat \<Rightarrow> mat4" where
  "ComputeRotation axis angle =
     (let transformation = Identity4;
          rot3 = AngleAxis_matrix angle axis
      in set_block33 transformation rot3)"

text \<open>The general form, with six parameters.\<close>

definition ComputeProjectionMatrix6 ::
  "GLfloat \<Rightarrow> GLfloat \<Rightarrow> GLfloat \<Rightarrow> GLfloat \<Rightarrow> GLfloat \<Rightarrow> GLfloat \<Rightarrow> mat4" where
  "ComputeProjectionMatrix6 left right top' bottom near far =
     (let projection = Identity4;
          projection = set_coeff projection 0 0 (2 * near / (right - left));
          projection = set_coeff projection 1 1 (2 * near / (top' - bottom));
          projection = set_coeff projection 2 2 (- (far + near) / (far - near));
          projection = set_coeff projection 0 2 ((right + left) / (right - left));
          projection = set_coeff projection 1 2 ((top' + bottom) / (top' - bottom));
          projection = set_coeff projection 2 3 (- 2 * far * near / (far - near));
          projection = set_coeff projection 3 3 0;
          projection = set_coeff projection 3 2 (- 1)
      in projection)"

text \<open>
  \<^verbatim>\<open>constexpr GLfloat kHalfPi = 0.5f * static_cast<GLfloat>(M_PI)\<close>. The cast rounds \<open>pi\<close> to
  single precision, which has 24 significant bits: the nearest such number is
  \<open>13176795 / 2 ^ 22\<close>, a little above \<open>pi\<close>. Halving it is exact.
\<close>

definition M_PI_float :: GLfloat where
  "M_PI_float = 13176795 / 2 ^ 22"

definition kHalfPi :: GLfloat where
  "kHalfPi = 0.5 * M_PI_float"

definition ComputeCotangent :: "GLfloat \<Rightarrow> GLfloat" where
  "ComputeCotangent angle = tan (kHalfPi - angle)"

text \<open>The reparametrization, with four parameters.\<close>

definition ComputeProjectionMatrix4 :: "GLfloat \<Rightarrow> GLfloat \<Rightarrow> GLfloat \<Rightarrow> GLfloat \<Rightarrow> mat4" where
  "ComputeProjectionMatrix4 field_of_view aspect_ratio near far =
     (let y_scale = ComputeCotangent (0.5 * field_of_view);
          x_scale = y_scale / aspect_ratio;
          planes_distance = far - near;
          z_scale = - (near + far) / planes_distance;
          homogeneous_scale = - 2 * near * far / planes_distance
      in Mat4 (Vec4 x_scale 0 0 0)
              (Vec4 0 y_scale 0 0)
              (Vec4 0 0 z_scale homogeneous_scale)
              (Vec4 0 0 (- 1) 0))"

section \<open>The scene: the class \<^verbatim>\<open>Model\<close>, \<^verbatim>\<open>RenderScene\<close> and the loop of \<^verbatim>\<open>main\<close>\<close>

text \<open>
  The class \<^verbatim>\<open>Model\<close> with its four attributes. \<^verbatim>\<open>vertices\<close> is a dynamic matrix, kept as the
  list of its columns (one column of eight floats per vertex); \<^verbatim>\<open>indices\<close> is a vector of
  32-bit unsigned integers.
\<close>

record Model =
  orientation :: vec3
  position :: vec3
  vertices :: "GLfloat list list"
  indices :: "GLuint list"

definition SetOrientation :: "vec3 \<Rightarrow> Model \<Rightarrow> Model" where
  "SetOrientation v m = m\<lparr>orientation := v\<rparr>"

definition SetPosition :: "vec3 \<Rightarrow> Model \<Rightarrow> Model" where
  "SetPosition v m = m\<lparr>position := v\<rparr>"

definition GetOrientation :: "Model \<Rightarrow> vec3" where
  "GetOrientation m = orientation m"

definition GetPosition :: "Model \<Rightarrow> vec3" where
  "GetPosition m = position m"

text \<open>
  What \<^verbatim>\<open>RenderScene\<close> leaves in the OpenGL context: the three matrices uploaded with
  \<^verbatim>\<open>glUniformMatrix4fv\<close> and the number of \<^verbatim>\<open>glDrawElements\<close> calls issued so far. Clearing
  the frame buffer and binding the texture and the vertex array are not modelled.
\<close>

record gl_context =
  uniform_model :: mat4
  uniform_view :: mat4
  uniform_projection :: mat4
  draw_calls :: nat

definition RenderScene :: "mat4 \<Rightarrow> GLfloat \<Rightarrow> gl_context \<Rightarrow> gl_context" where
  "RenderScene projection angle ctx =
     (let translation = ComputeTranslation (Vec3 0 0 (- 5));
          rotation = ComputeRotation (normalized (Vec3 0 1 0)) angle;
          model = mat4_mul translation rotation;
          view = Identity4
      in ctx\<lparr>uniform_model := model, uniform_view := view, uniform_projection := projection,
             draw_calls := draw_calls ctx + 1\<rparr>)"

text \<open>
  The local variables of \<^verbatim>\<open>main\<close> that the loop reads or writes, with the OpenGL context.
\<close>

record main_state =
  main_model :: Model
  main_projection_matrix :: mat4
  main_angle :: GLfloat
  main_gl :: gl_context

definition kWindowWidth :: int where
  "kWindowWidth = 640"

definition kWindowHeight :: int where
  "kWindowHeight = 480"

text \<open>The division of two C++ \<^verbatim>\<open>int\<close>s: the quotient truncated towards zero.\<close>

definition int_div :: "int \<Rightarrow> int \<Rightarrow> int" where
  "int_div a b = sgn a * sgn b * (\<bar>a\<bar> div \<bar>b\<bar>)"

definition field_of_view_main :: GLfloat where
  "field_of_view_main = 45"

definition aspect_ratio_main :: GLfloat where
  "aspect_ratio_main = of_int (int_div kWindowWidth kWindowHeight)"

definition rotation_speed :: GLfloat where
  "rotation_speed = 50"

text \<open>
  The quad that \<^verbatim>\<open>main\<close> builds: four vertices of position, colour and texture coordinate,
  and two triangles.
\<close>

definition main_vertices :: "GLfloat list list" where
  "main_vertices =
     [[0, 1, 0, 1, 0, 0, 0, 0],
      [0, 0, 0, 0, 1, 0, 0, 1],
      [1, 1, 0, 0, 0, 1, 1, 0],
      [1, 0, 0, 1, 0, 0, 1, 1]]"

definition main_indices :: "GLuint list" where
  "main_indices = [0, 1, 3, 0, 3, 2]"

text \<open>The state of \<^verbatim>\<open>main\<close> when it enters the loop, from the OpenGL context at that point.\<close>

definition main_setup :: "gl_context \<Rightarrow> main_state" where
  "main_setup ctx =
     \<lparr>main_model = \<lparr>orientation = Vec3 0 0 0, position = Vec3 0 0 0,
                     vertices = main_vertices, indices = main_indices\<rparr>,
      main_projection_matrix =
        ComputeProjectionMatrix4 field_of_view_main aspect_ratio_main 0.1 10,
      main_angle = 0,
      main_gl = ctx\<rparr>"

text \<open>
  One iteration of the loop, where \<open>time\<close> is what \<^verbatim>\<open>glfwGetTime()\<close> returns in it: the angle is
  overwritten and the scene rendered.
\<close>

definition frame_angle :: "GLfloat \<Rightarrow> GLfloat" where
  "frame_angle time = rotation_speed * time * pi / 180"

definition loop_body :: "GLfloat \<Rightarrow> main_state \<Rightarrow> main_state" where
  "loop_body time s =
     (let angle = frame_angle time
      in s\<lparr>main_angle := angle,
           main_gl := RenderScene (main_projection_matrix s) angle (main_gl s)\<rparr>)"

text \<open>
  The loop runs against the window system: each iteration first asks
  \<^verbatim>\<open>glfwWindowShouldClose\<close> and, when the answer is no, reads the clock. The answers of the
  window system are a list, one entry per loop test; the loop stops at the first entry that
  asks to close, and with the state reached when the list is used up.
\<close>

record loop_event =
  glfwWindowShouldClose :: bool
  glfwGetTime :: GLfloat

fun render_loop :: "loop_event list \<Rightarrow> main_state \<Rightarrow> main_state" where
  "render_loop [] s = s"
| "render_loop (e # es) s =
     (if glfwWindowShouldClose e then s else render_loop es (loop_body (glfwGetTime e) s))"

section \<open>Notions that the properties are stated with\<close>

definition norm3 :: "vec3 \<Rightarrow> GLfloat" where
  "norm3 v = sqrt (squaredNorm v)"

text \<open>A 3\<times>3 matrix is orthogonal when its transpose is its inverse, on both sides.\<close>

definition orthogonal3 :: "mat3 \<Rightarrow> bool" where
  "orthogonal3 m =
     (mat3_mul (transpose3 m) m = Identity3 \<and> mat3_mul m (transpose3 m) = Identity3)"

definition det3 :: "mat3 \<Rightarrow> GLfloat" where
  "det3 m =
     vx (r0 m) * (vy (r1 m) * vz (r2 m) - vz (r1 m) * vy (r2 m))
     - vy (r0 m) * (vx (r1 m) * vz (r2 m) - vz (r1 m) * vx (r2 m))
     + vz (r0 m) * (vx (r1 m) * vy (r2 m) - vy (r1 m) * vx (r2 m))"

definition trace3 :: "mat3 \<Rightarrow> GLfloat" where
  "trace3 m = vx (r0 m) + vy (r1 m) + vz (r2 m)"

text \<open>
  The homogeneous divide is done by the graphics pipeline on the clip coordinates that
  the vertex shader returns, not by this program: the first three coordinates divided
  by the fourth, and no point when the fourth is zero.
\<close>

definition perspective_divide :: "vec4 \<Rightarrow> vec3 option" where
  "perspective_divide c =
     (if hw c = 0 then None else Some (Vec3 (hx c / hw c) (hy c / hw c) (hz c / hw c)))"

text \<open>View space to normalised device coordinates, through a projection matrix.\<close>

definition project :: "mat4 \<Rightarrow> vec3 \<Rightarrow> vec3 option" where
  "project m p = perspective_divide (mat4_vec m (homogeneous p))"

text \<open>
  Agreement within a relative tolerance: a number \<open>a\<close> is within \<open>eps\<close> of the reference
  \<open>b\<close> when \<open>\<bar>a - b\<bar> \<le> eps * \<bar>b\<bar>\<close>, and a matrix is when every coefficient is.
\<close>

definition within_tolerance :: "GLfloat \<Rightarrow> GLfloat \<Rightarrow> GLfloat \<Rightarrow> bool" where
  "within_tolerance eps a b = (\<bar>a - b\<bar> \<le> eps * \<bar>b\<bar>)"

definition vec4_within :: "GLfloat \<Rightarrow> vec4 \<Rightarrow> vec4 \<Rightarrow> bool" where
  "vec4_within eps u v =
     (within_tolerance eps (hx u) (hx v) \<and> within_tolerance eps (hy u) (hy v)
      \<and> within_tolerance eps (hz u) (hz v) \<and> within_tolerance eps (hw u) (hw v))"

definition mat4_within :: "GLfloat \<Rightarrow> mat4 \<Rightarrow> mat4 \<Rightarrow> bool" where
  "mat4_within eps a b =
     (vec4_within eps (row0 a) (row0 b) \<and> vec4_within eps (row1 a) (row1 b)
      \<and> vec4_within eps (row2 a) (row2 b) \<and> vec4_within eps (row3 a) (row3 b))"

section \<open>Translation\<close>

lemma ComputeTranslation_rows:
  "ComputeTranslation o3 =
     Mat4 (Vec4 1 0 0 (vx o3)) (Vec4 0 1 0 (vy o3)) (Vec4 0 0 1 (vz o3)) (Vec4 0 0 0 1)"
  by (simp add: ComputeTranslation_def Identity4_def set_col3_def vec4_set_def homogeneous_def)

lemma ComputeTranslation_apply:
  "mat4_vec (ComputeTranslation o3) (Vec4 x y z w) =
     Vec4 (x + w * vx o3) (y + w * vy o3) (z + w * vz o3) w"
  by (simp add: ComputeTranslation_rows mat4_vec_def dot4_def mult.commute)

text \<open>
  Claim C6. For every offset \<open>o\<close>, \<open>ComputeTranslation o\<close> is the identity matrix with its
  last column replaced by \<open>[o.x, o.y, o.z, 1]\<close>: the other three columns are those of the
  identity. Applied to the homogeneous origin \<open>[0, 0, 0, 1]\<close> it yields
  \<open>[o.x, o.y, o.z, 1]\<close>; applied to a homogeneous point, that is a point \<open>p\<close> with the
  coordinate 1 appended, it yields the homogeneous point \<open>p + o\<close>; and it leaves the
  fourth coordinate of every 4-vector unchanged (to a 4-vector with the fourth
  coordinate \<open>w\<close> it adds \<open>w\<close> times the offset).
\<close>

theorem C6_translation:
  "ComputeTranslation o3 = set_col3 Identity4 (Vec4 (vx o3) (vy o3) (vz o3) 1)
   \<and> col4 (ComputeTranslation o3) 0 = col4 Identity4 0
   \<and> col4 (ComputeTranslation o3) 1 = col4 Identity4 1
   \<and> col4 (ComputeTranslation o3) 2 = col4 Identity4 2
   \<and> col4 (ComputeTranslation o3) 3 = Vec4 (vx o3) (vy o3) (vz o3) 1
   \<and> mat4_vec (ComputeTranslation o3) (Vec4 0 0 0 1) = Vec4 (vx o3) (vy o3) (vz o3) 1
   \<and> mat4_vec (ComputeTranslation o3) (homogeneous p) = homogeneous (vec3_add p o3)
   \<and> hw (mat4_vec (ComputeTranslation o3) q) = hw q
   \<and> mat4_vec (ComputeTranslation o3) (Vec4 x y z w) =
       Vec4 (x + w * vx o3) (y + w * vy o3) (z + w * vz o3) w"
proof -
  have a: "ComputeTranslation o3 = set_col3 Identity4 (Vec4 (vx o3) (vy o3) (vz o3) 1)"
    by (simp add: ComputeTranslation_def homogeneous_def)
  have b: "col4 (ComputeTranslation o3) 0 = col4 Identity4 0"
    "col4 (ComputeTranslation o3) 1 = col4 Identity4 1"
    "col4 (ComputeTranslation o3) 2 = col4 Identity4 2"
    "col4 (ComputeTranslation o3) 3 = Vec4 (vx o3) (vy o3) (vz o3) 1"
    by (simp_all add: ComputeTranslation_rows Identity4_def col4_def)
  have c: "mat4_vec (ComputeTranslation o3) (Vec4 0 0 0 1) = Vec4 (vx o3) (vy o3) (vz o3) 1"
    by (simp add: ComputeTranslation_apply)
  have d: "mat4_vec (ComputeTranslation o3) (homogeneous p) = homogeneous (vec3_add p o3)"
    by (simp add: homogeneous_def ComputeTranslation_apply vec3_add_def)
  have e: "hw (mat4_vec (ComputeTranslation o3) q) = hw q"
    by (cases q) (simp add: ComputeTranslation_apply)
  have g: "mat4_vec (ComputeTranslation o3) (Vec4 x y z w) =
       Vec4 (x + w * vx o3) (y + w * vy o3) (z + w * vz o3) w"
    by (rule ComputeTranslation_apply)
  from a b c d e g show ?thesis
    by blast
qed

section \<open>Rotation\<close>

lemma transpose3_Mat3:
  "transpose3 (Mat3 (Vec3 a1 a2 a3) (Vec3 a4 a5 a6) (Vec3 a7 a8 a9)) =
     Mat3 (Vec3 a1 a4 a7) (Vec3 a2 a5 a8) (Vec3 a3 a6 a9)"
  by (simp add: transpose3_def col3_def)

lemma mat3_mul_Mat3:
  "mat3_mul (Mat3 (Vec3 a1 a2 a3) (Vec3 a4 a5 a6) (Vec3 a7 a8 a9))
            (Mat3 (Vec3 b1 b2 b3) (Vec3 b4 b5 b6) (Vec3 b7 b8 b9)) =
     Mat3 (Vec3 (a1 * b1 + a2 * b4 + a3 * b7) (a1 * b2 + a2 * b5 + a3 * b8) (a1 * b3 + a2 * b6 + a3 * b9))
          (Vec3 (a4 * b1 + a5 * b4 + a6 * b7) (a4 * b2 + a5 * b5 + a6 * b8) (a4 * b3 + a5 * b6 + a6 * b9))
          (Vec3 (a7 * b1 + a8 * b4 + a9 * b7) (a7 * b2 + a8 * b5 + a9 * b8) (a7 * b3 + a8 * b6 + a9 * b9))"
  by (simp add: mat3_mul_def row3_mat_def col3_def dot3_def)

lemma AngleAxis_matrix_Vec3:
  "AngleAxis_matrix t (Vec3 x y z) =
     Mat3 (Vec3 ((1 - cos t) * x * x + cos t) ((1 - cos t) * x * y - sin t * z) ((1 - cos t) * x * z + sin t * y))
          (Vec3 ((1 - cos t) * x * y + sin t * z) ((1 - cos t) * y * y + cos t) ((1 - cos t) * y * z - sin t * x))
          (Vec3 ((1 - cos t) * x * z - sin t * y) ((1 - cos t) * y * z + sin t * x) ((1 - cos t) * z * z + cos t))"
  by (simp add: AngleAxis_matrix_def Let_def)

lemma ComputeRotation_rows:
  "ComputeRotation a t =
     Mat4 (Vec4 (vx (r0 (AngleAxis_matrix t a))) (vy (r0 (AngleAxis_matrix t a))) (vz (r0 (AngleAxis_matrix t a))) 0)
          (Vec4 (vx (r1 (AngleAxis_matrix t a))) (vy (r1 (AngleAxis_matrix t a))) (vz (r1 (AngleAxis_matrix t a))) 0)
          (Vec4 (vx (r2 (AngleAxis_matrix t a))) (vy (r2 (AngleAxis_matrix t a))) (vz (r2 (AngleAxis_matrix t a))) 0)
          (Vec4 0 0 0 1)"
  by (simp add: ComputeRotation_def Let_def set_block33_def Identity4_def)

lemma block33_ComputeRotation: "block33 (ComputeRotation a t) = AngleAxis_matrix t a"
  by (simp add: ComputeRotation_rows block33_def)

lemma rodrigues_orthogonal:
  fixes x y z s c :: real
  assumes u: "x * x + y * y + z * z = 1" and t: "s * s + c * c = 1"
  shows "orthogonal3
     (Mat3 (Vec3 ((1 - c) * x * x + c) ((1 - c) * x * y - s * z) ((1 - c) * x * z + s * y))
          (Vec3 ((1 - c) * x * y + s * z) ((1 - c) * y * y + c) ((1 - c) * y * z - s * x))
          (Vec3 ((1 - c) * x * z - s * y) ((1 - c) * y * z + s * x) ((1 - c) * z * z + c)))"
  unfolding orthogonal3_def Identity3_def
  apply (simp only: transpose3_Mat3 mat3_mul_Mat3 vec3.inject mat3.inject)
  apply (intro conjI)
  using u t apply algebra+
  done

lemma rodrigues_det:
  fixes x y z s c :: real
  assumes u: "x * x + y * y + z * z = 1" and t: "s * s + c * c = 1"
  shows "det3
     (Mat3 (Vec3 ((1 - c) * x * x + c) ((1 - c) * x * y - s * z) ((1 - c) * x * z + s * y))
          (Vec3 ((1 - c) * x * y + s * z) ((1 - c) * y * y + c) ((1 - c) * y * z - s * x))
          (Vec3 ((1 - c) * x * z - s * y) ((1 - c) * y * z + s * x) ((1 - c) * z * z + c))) = 1"
  unfolding det3_def
  apply (simp only: vec3.sel mat3.sel)
  using u t apply algebra
  done

lemma rodrigues_axis:
  fixes x y z s c :: real
  assumes u: "x * x + y * y + z * z = 1"
  shows "mat3_vec
     (Mat3 (Vec3 ((1 - c) * x * x + c) ((1 - c) * x * y - s * z) ((1 - c) * x * z + s * y))
          (Vec3 ((1 - c) * x * y + s * z) ((1 - c) * y * y + c) ((1 - c) * y * z - s * x))
          (Vec3 ((1 - c) * x * z - s * y) ((1 - c) * y * z + s * x) ((1 - c) * z * z + c)))
     (Vec3 (k * x) (k * y) (k * z)) = Vec3 (k * x) (k * y) (k * z)"
  unfolding mat3_vec_def dot3_def
  apply (simp only: vec3.sel mat3.sel vec3.inject)
  apply (intro conjI)
  using u apply algebra+
  done

lemma AngleAxis_orthogonal:
  assumes "squaredNorm a = 1"
  shows "orthogonal3 (AngleAxis_matrix t a)"
proof (cases a)
  case (Vec3 x y z)
  with assms have u: "x * x + y * y + z * z = 1"
    by (simp add: squaredNorm_def)
  have t: "sin t * sin t + cos t * cos t = 1"
    using sin_cos_squared_add [of t] by (simp add: power2_eq_square)
  show ?thesis
    unfolding Vec3 AngleAxis_matrix_Vec3 by (rule rodrigues_orthogonal [OF u t])
qed

lemma AngleAxis_det:
  assumes "squaredNorm a = 1"
  shows "det3 (AngleAxis_matrix t a) = 1"
proof (cases a)
  case (Vec3 x y z)
  with assms have u: "x * x + y * y + z * z = 1"
    by (simp add: squaredNorm_def)
  have t: "sin t * sin t + cos t * cos t = 1"
    using sin_cos_squared_add [of t] by (simp add: power2_eq_square)
  show ?thesis
    unfolding Vec3 AngleAxis_matrix_Vec3 by (rule rodrigues_det [OF u t])
qed

lemma AngleAxis_trace:
  assumes "squaredNorm a = 1"
  shows "trace3 (AngleAxis_matrix t a) = 1 + 2 * cos t"
proof (cases a)
  case (Vec3 x y z)
  with assms have u: "x * x + y * y + z * z = 1"
    by (simp add: squaredNorm_def)
  have "trace3 (AngleAxis_matrix t a) = (1 - cos t) * (x * x + y * y + z * z) + 3 * cos t"
    unfolding Vec3 AngleAxis_matrix_Vec3 trace3_def by (simp add: algebra_simps)
  then show ?thesis
    by (simp add: u)
qed

lemma squaredNorm_pos:
  assumes "a \<noteq> Vec3 0 0 0"
  shows "0 < squaredNorm a"
proof (cases a)
  case (Vec3 x y z)
  have nn: "0 \<le> x * x" "0 \<le> y * y" "0 \<le> z * z"
    by simp_all
  from assms Vec3 have "x \<noteq> 0 \<or> y \<noteq> 0 \<or> z \<noteq> 0"
    by simp
  then have "0 < x * x \<or> 0 < y * y \<or> 0 < z * z"
    using not_real_square_gt_zero by blast
  with nn have "0 < x * x + y * y + z * z"
    by linarith
  then show ?thesis
    by (simp add: Vec3 squaredNorm_def)
qed

lemma normalized_unit:
  assumes "a \<noteq> Vec3 0 0 0"
  shows "squaredNorm (normalized a) = 1"
proof -
  define n where "n = sqrt (squaredNorm a)"
  have p: "0 < squaredNorm a"
    using assms by (rule squaredNorm_pos)
  then have q: "n * n = squaredNorm a" and n0: "n \<noteq> 0"
    by (simp_all add: n_def)
  have "normalized a = Vec3 (vx a / n) (vy a / n) (vz a / n)"
    using p by (simp add: normalized_def Let_def n_def)
  then have "squaredNorm (normalized a) =
          (vx a * vx a + vy a * vy a + vz a * vz a) / (n * n)"
    by (simp add: squaredNorm_def add_divide_distrib)
  also have "\<dots> = squaredNorm a / squaredNorm a"
    unfolding q by (simp add: squaredNorm_def)
  also have "\<dots> = 1"
    using p by simp
  finally show ?thesis .
qed

lemma normalized_scale:
  assumes "a \<noteq> Vec3 0 0 0"
  shows "a = Vec3 (norm3 a * vx (normalized a)) (norm3 a * vy (normalized a)) (norm3 a * vz (normalized a))"
proof -
  have p: "0 < squaredNorm a"
    using assms by (rule squaredNorm_pos)
  then have "sqrt (squaredNorm a) \<noteq> 0"
    by simp
  then show ?thesis
    using p by (cases a) (simp add: normalized_def Let_def norm3_def)
qed

lemma AngleAxis_axis:
  assumes "squaredNorm u = 1"
  shows "mat3_vec (AngleAxis_matrix t u) (Vec3 (k * vx u) (k * vy u) (k * vz u)) =
           Vec3 (k * vx u) (k * vy u) (k * vz u)"
proof (cases u)
  case (Vec3 x y z)
  with assms have u: "x * x + y * y + z * z = 1"
    by (simp add: squaredNorm_def)
  show ?thesis
    unfolding Vec3 AngleAxis_matrix_Vec3 vec3.sel by (rule rodrigues_axis [OF u])
qed

text \<open>
  Claim C4. For every axis \<open>a\<close> of unit length and every angle \<open>t\<close>, the upper-left 3\<times>3
  block of \<open>ComputeRotation a t\<close> is orthogonal (its transpose is its inverse),
  \<open>ComputeRotation a 0\<close> is the 4\<times>4 identity matrix, and the fourth row and the fourth
  column of the result are those of the identity matrix.
\<close>

theorem C4_rotation:
  assumes "norm3 a = 1"
  shows "orthogonal3 (block33 (ComputeRotation a t))
       \<and> ComputeRotation a 0 = Identity4
       \<and> row3 (ComputeRotation a t) = row3 Identity4
       \<and> col4 (ComputeRotation a t) 3 = col4 Identity4 3"
proof -
  from assms have u: "squaredNorm a = 1"
    by (simp add: norm3_def)
  have orth: "orthogonal3 (block33 (ComputeRotation a t))"
    unfolding block33_ComputeRotation using u by (rule AngleAxis_orthogonal)
  have zero: "ComputeRotation a 0 = Identity4"
    by (cases a) (simp add: ComputeRotation_rows AngleAxis_matrix_Vec3 Identity4_def)
  have border: "row3 (ComputeRotation a t) = row3 Identity4"
    "col4 (ComputeRotation a t) 3 = col4 Identity4 3"
    by (simp_all add: ComputeRotation_rows Identity4_def col4_def)
  from orth zero border show ?thesis
    by simp
qed

theorem C4_rotation_witness:
  "norm3 (Vec3 0 1 0) = 1
   \<and> orthogonal3 (block33 (ComputeRotation (Vec3 0 1 0) (pi / 2)))
   \<and> ComputeRotation (Vec3 0 1 0) 0 = Identity4
   \<and> row3 (ComputeRotation (Vec3 0 1 0) (pi / 2)) = Vec4 0 0 0 1
   \<and> col4 (ComputeRotation (Vec3 0 1 0) (pi / 2)) 3 = Vec4 0 0 0 1"
proof -
  have h: "norm3 (Vec3 0 1 0) = 1"
    by (simp add: norm3_def squaredNorm_def)
  show ?thesis
    using h C4_rotation [OF h, of "pi / 2"] by (simp add: Identity4_def col4_def)
qed

text \<open>
  Claim C5 says that the axis need not be normalised by the caller. \<open>ComputeRotation\<close>
  hands the axis to the angle-axis conversion as it is, so an axis that is not of unit
  length gives a block that is not orthogonal: already the axis \<open>(0, 2, 0)\<close> with the
  angle \<open>pi\<close> does.
\<close>

theorem C5_counterexample:
  "Vec3 0 2 0 \<noteq> Vec3 0 0 0 \<and> \<not> orthogonal3 (block33 (ComputeRotation (Vec3 0 2 0) pi))"
  by (simp add: block33_ComputeRotation AngleAxis_matrix_Vec3 orthogonal3_def
      transpose3_Mat3 mat3_mul_Mat3 Identity3_def)

text \<open>
  Claim C5, amended. The caller normalises the axis, as \<open>RenderScene\<close> does: for every
  non-zero axis \<open>a\<close> and every angle \<open>t\<close>, \<open>ComputeRotation (normalized a) t\<close> has an
  orthogonal 3\<times>3 block of determinant 1 that leaves \<open>a\<close> fixed and has the trace
  \<open>1 + 2 cos t\<close>: a rotation by \<open>t\<close> about the direction of \<open>a\<close>.
\<close>

theorem C5_rotation_normalized:
  assumes "a \<noteq> Vec3 0 0 0"
  shows "orthogonal3 (block33 (ComputeRotation (normalized a) t))
       \<and> det3 (block33 (ComputeRotation (normalized a) t)) = 1
       \<and> mat3_vec (block33 (ComputeRotation (normalized a) t)) a = a
       \<and> trace3 (block33 (ComputeRotation (normalized a) t)) = 1 + 2 * cos t"
proof -
  have u: "squaredNorm (normalized a) = 1"
    using assms by (rule normalized_unit)
  have fixed: "mat3_vec (AngleAxis_matrix t (normalized a)) a = a"
    using AngleAxis_axis [OF u, of t "norm3 a"] normalized_scale [OF assms] by simp
  show ?thesis
    unfolding block33_ComputeRotation
    using AngleAxis_orthogonal [OF u] AngleAxis_det [OF u] AngleAxis_trace [OF u] fixed by simp
qed

theorem C5_rotation_normalized_witness:
  "Vec3 0 2 0 \<noteq> Vec3 0 0 0
   \<and> normalized (Vec3 0 2 0) = Vec3 0 1 0
   \<and> orthogonal3 (block33 (ComputeRotation (Vec3 0 1 0) pi))
   \<and> mat3_vec (block33 (ComputeRotation (Vec3 0 1 0) pi)) (Vec3 0 2 0) = Vec3 0 2 0"
proof -
  have h: "Vec3 0 2 0 \<noteq> Vec3 0 0 0"
    by simp
  have n: "normalized (Vec3 0 2 0) = Vec3 0 1 0"
  proof -
    have "sqrt 4 = sqrt (2\<^sup>2)"
      by simp
    then have "sqrt 4 = 2"
      by (simp only: real_sqrt_abs)
    then show ?thesis
      by (simp add: normalized_def squaredNorm_def Let_def)
  qed
  show ?thesis
    using h n C5_rotation_normalized [OF h, of pi] by simp
qed

section \<open>Composition of the model matrix\<close>

lemma mat4_mul_vec:
  "mat4_vec (mat4_mul a b) v = mat4_vec a (mat4_vec b v)"
  by (cases a; cases b; cases v)
     (simp add: mat4_mul_def mat4_vec_def row4_mat_def col4_def dot4_def algebra_simps)

lemma ComputeRotation_apply:
  "mat4_vec (ComputeRotation a t) (homogeneous p) = homogeneous (mat3_vec (AngleAxis_matrix t a) p)"
  by (simp add: ComputeRotation_rows mat4_vec_def mat3_vec_def dot4_def dot3_def homogeneous_def)

lemma normalized_y: "normalized (Vec3 0 1 0) = Vec3 0 1 0"
  by (simp add: normalized_def squaredNorm_def)

lemma uniform_model_RenderScene:
  "uniform_model (RenderScene projection angle ctx) =
     mat4_mul (ComputeTranslation (Vec3 0 0 (- 5))) (ComputeRotation (Vec3 0 1 0) angle)"
  by (simp add: RenderScene_def Let_def normalized_y)

text \<open>
  Claim C1. The model matrix of a frame is the translation applied after the rotation:
  \<open>model = ComputeTranslation offset * ComputeRotation axis angle\<close>, so a point is first
  rotated about the origin of the object and then moved by the offset. For the axis
  \<open>(0, 1, 0)\<close>, the angle \<open>pi / 2\<close> and the offset \<open>(0, 0, -5)\<close> the model matrix maps the
  homogeneous point \<open>(1, 0, 0, 1)\<close> to \<open>(0, 0, -6, 1)\<close>; the product in the other order
  maps it to \<open>(-5, 0, -1, 1)\<close>.
\<close>

theorem C1_model_matrix:
  "uniform_model (RenderScene projection angle ctx) =
     mat4_mul (ComputeTranslation (Vec3 0 0 (- 5))) (ComputeRotation (normalized (Vec3 0 1 0)) angle)
   \<and> mat4_vec (mat4_mul (ComputeTranslation offset) (ComputeRotation axis angle)) (homogeneous p) =
       homogeneous (vec3_add (mat3_vec (block33 (ComputeRotation axis angle)) p) offset)
   \<and> mat4_vec (mat4_mul (ComputeTranslation (Vec3 0 0 (- 5))) (ComputeRotation (Vec3 0 1 0) (pi / 2)))
        (Vec4 1 0 0 1) = Vec4 0 0 (- 6) 1
   \<and> mat4_vec (uniform_model (RenderScene projection (pi / 2) ctx)) (Vec4 1 0 0 1) = Vec4 0 0 (- 6) 1
   \<and> mat4_vec (mat4_mul (ComputeRotation (Vec3 0 1 0) (pi / 2)) (ComputeTranslation (Vec3 0 0 (- 5))))
        (Vec4 1 0 0 1) = Vec4 (- 5) 0 (- 1) 1"
proof -
  have order: "mat4_vec (mat4_mul (ComputeTranslation offset) (ComputeRotation axis angle)) (homogeneous p) =
       homogeneous (vec3_add (mat3_vec (block33 (ComputeRotation axis angle)) p) offset)"
    unfolding mat4_mul_vec ComputeRotation_apply block33_ComputeRotation
    by (simp add: homogeneous_def ComputeTranslation_apply vec3_add_def)
  have rot: "mat4_vec (ComputeRotation (Vec3 0 1 0) (pi / 2)) (Vec4 1 0 0 1) = Vec4 0 0 (- 1) 1"
    by (simp add: ComputeRotation_rows AngleAxis_matrix_Vec3 mat4_vec_def dot4_def)
  have concrete: "mat4_vec (mat4_mul (ComputeTranslation (Vec3 0 0 (- 5))) (ComputeRotation (Vec3 0 1 0) (pi / 2)))
        (Vec4 1 0 0 1) = Vec4 0 0 (- 6) 1"
    unfolding mat4_mul_vec rot by (simp add: ComputeTranslation_apply)
  have rendered: "mat4_vec (uniform_model (RenderScene projection (pi / 2) ctx)) (Vec4 1 0 0 1) = Vec4 0 0 (- 6) 1"
    unfolding uniform_model_RenderScene by (rule concrete)
  have reversed: "mat4_vec (mat4_mul (ComputeRotation (Vec3 0 1 0) (pi / 2)) (ComputeTranslation (Vec3 0 0 (- 5))))
        (Vec4 1 0 0 1) = Vec4 (- 5) 0 (- 1) 1"
    unfolding mat4_mul_vec ComputeTranslation_apply
    by (simp add: ComputeRotation_rows AngleAxis_matrix_Vec3 mat4_vec_def dot4_def)
  have composed: "uniform_model (RenderScene projection angle ctx) =
     mat4_mul (ComputeTranslation (Vec3 0 0 (- 5))) (ComputeRotation (normalized (Vec3 0 1 0)) angle)"
    by (simp add: RenderScene_def Let_def)
  from composed order concrete rendered reversed show ?thesis
    by simp
qed

section \<open>Projection\<close>

lemma ComputeProjectionMatrix6_rows:
  "ComputeProjectionMatrix6 left right top' bottom near far =
     Mat4 (Vec4 (2 * near / (right - left)) 0 ((right + left) / (right - left)) 0)
          (Vec4 0 (2 * near / (top' - bottom)) ((top' + bottom) / (top' - bottom)) 0)
          (Vec4 0 0 (- (far + near) / (far - near)) (- 2 * far * near / (far - near)))
          (Vec4 0 0 (- 1) 0)"
  by (simp add: ComputeProjectionMatrix6_def Let_def set_coeff_def vec4_set_def Identity4_def)

lemma ComputeProjectionMatrix6_apply:
  "mat4_vec (ComputeProjectionMatrix6 left right top' bottom near far) (Vec4 x y z w) =
     Vec4 (2 * near / (right - left) * x + (right + left) / (right - left) * z)
          (2 * near / (top' - bottom) * y + (top' + bottom) / (top' - bottom) * z)
          (- (far + near) / (far - near) * z + - 2 * far * near / (far - near) * w)
          (- z)"
  by (simp add: ComputeProjectionMatrix6_rows mat4_vec_def dot4_def)

lemma ndc_bound:
  fixes l r x :: real
  assumes "l \<le> x" "x \<le> r" "r \<noteq> l"
  shows "- 1 \<le> (2 * x - (r + l)) / (r - l)" "(2 * x - (r + l)) / (r - l) \<le> 1"
proof -
  from assms have "0 < r - l" by simp
  then show "- 1 \<le> (2 * x - (r + l)) / (r - l)" "(2 * x - (r + l)) / (r - l) \<le> 1"
    using assms by (simp_all add: field_simps)
qed

lemma near_xy:
  fixes n :: real
  assumes "0 < n"
  shows "(2 * n / (r - l) * x + (r + l) / (r - l) * (- n)) / n = (2 * x - (r + l)) / (r - l)"
proof -
  have "2 * n / (r - l) * x + (r + l) / (r - l) * (- n) = n * ((2 * x - (r + l)) / (r - l))"
    by (simp add: diff_divide_distrib add_divide_distrib algebra_simps)
  then show ?thesis using assms by simp
qed

lemma depth_num:
  fixes n f :: real
  assumes "f \<noteq> n"
  shows "- (f + n) / (f - n) * (- n) + - 2 * f * n / (f - n) * 1 = - n"
    and "- (f + n) / (f - n) * (- f) + - 2 * f * n / (f - n) * 1 = f"
proof -
  have d: "f - n \<noteq> 0" using assms by simp
  have "- (f + n) / (f - n) * (- n) + - 2 * f * n / (f - n) * 1 = (- n * (f - n)) / (f - n)"
    by (simp add: add_divide_distrib [symmetric] algebra_simps)
  then show "- (f + n) / (f - n) * (- n) + - 2 * f * n / (f - n) * 1 = - n"
    using d by simp
  have "- (f + n) / (f - n) * (- f) + - 2 * f * n / (f - n) * 1 = (f * (f - n)) / (f - n)"
    by (simp add: add_divide_distrib [symmetric] algebra_simps)
  then show "- (f + n) / (f - n) * (- f) + - 2 * f * n / (f - n) * 1 = f"
    using d by simp
qed

lemma perspective_divide_Vec4:
  assumes "w \<noteq> 0"
  shows "perspective_divide (Vec4 a b c w) = Some (Vec3 (a / w) (b / w) (c / w))"
  using assms by (simp add: perspective_divide_def)

lemma project_near:
  assumes f: "far \<noteq> near" and n: "0 < near"
  shows "project (ComputeProjectionMatrix6 left right top' bottom near far) (Vec3 x y (- near)) =
     Some (Vec3 ((2 * x - (right + left)) / (right - left))
                ((2 * y - (top' + bottom)) / (top' - bottom)) (- 1))"
proof -
  from n have nz: "near \<noteq> 0"
    by simp
  show ?thesis
    unfolding project_def homogeneous_def vec3.sel ComputeProjectionMatrix6_apply minus_minus
      perspective_divide_Vec4 [OF nz] near_xy [OF n] depth_num(1) [OF f]
    using nz by simp
qed

lemma project_far:
  assumes f: "far \<noteq> near" and z: "far \<noteq> 0"
  shows "map_option vz (project (ComputeProjectionMatrix6 left right top' bottom near far) (Vec3 x y (- far))) =
     Some 1"
  unfolding project_def homogeneous_def vec3.sel ComputeProjectionMatrix6_apply minus_minus
    perspective_divide_Vec4 [OF z] depth_num(2) [OF f]
  using z by simp

text \<open>
  Claim C3 lists the preconditions \<open>right \<noteq> left\<close>, \<open>top \<noteq> bottom\<close>, \<open>far \<noteq> near\<close> and
  \<open>near > 0\<close>. They allow \<open>far = 0\<close>, and then the point at depth \<open>z = - far\<close> has the clip
  coordinate \<open>w = 0\<close>: the homogeneous divide gives no point, and so not the depth 1.
\<close>

theorem C3_counterexample:
  "(1::real) \<noteq> - 1 \<and> (0::real) \<noteq> 1 \<and> (0::real) < 1
   \<and> project (ComputeProjectionMatrix6 (- 1) 1 1 (- 1) 1 0) (Vec3 0 0 (- 0)) = None
   \<and> mat4_vec (ComputeProjectionMatrix6 (- 1) 1 1 (- 1) 1 0) (homogeneous (Vec3 0 0 (- 0))) = Vec4 0 0 0 0"
  by (simp add: project_def homogeneous_def ComputeProjectionMatrix6_apply perspective_divide_def)

text \<open>
  Claim C3, amended with \<open>far \<noteq> 0\<close>. Under the preconditions \<open>right \<noteq> left\<close>,
  \<open>top \<noteq> bottom\<close>, \<open>far \<noteq> near\<close>, \<open>far \<noteq> 0\<close> and \<open>near > 0\<close>, the matrix of the general
  form maps a view-space point with \<open>x\<close> in \<open>[left, right]\<close> and \<open>y\<close> in \<open>[bottom, top]\<close> at
  \<open>z = - near\<close> to a point of \<open>[-1, 1] \<times> [-1, 1]\<close> after the homogeneous divide, and it
  maps the depth \<open>z = - near\<close> to \<open>-1\<close> and the depth \<open>z = - far\<close> to \<open>1\<close>, whatever the other
  two coordinates are.
\<close>

theorem C3_projection:
  assumes rl: "right \<noteq> left" and tb: "top' \<noteq> bottom" and f: "far \<noteq> near" and n: "0 < near"
    and z: "far \<noteq> 0"
    and x: "left \<le> x" "x \<le> right" and y: "bottom \<le> y" "y \<le> top'"
  shows "(\<exists>u v. project (ComputeProjectionMatrix6 left right top' bottom near far) (Vec3 x y (- near)) =
            Some (Vec3 u v (- 1)) \<and> - 1 \<le> u \<and> u \<le> 1 \<and> - 1 \<le> v \<and> v \<le> 1)
       \<and> map_option vz (project (ComputeProjectionMatrix6 left right top' bottom near far) (Vec3 x' y' (- near))) =
            Some (- 1)
       \<and> map_option vz (project (ComputeProjectionMatrix6 left right top' bottom near far) (Vec3 x' y' (- far))) =
            Some 1"
proof -
  have box: "\<exists>u v. project (ComputeProjectionMatrix6 left right top' bottom near far) (Vec3 x y (- near)) =
            Some (Vec3 u v (- 1)) \<and> - 1 \<le> u \<and> u \<le> 1 \<and> - 1 \<le> v \<and> v \<le> 1"
    using project_near [OF f n, of left right top' bottom x y]
      ndc_bound [OF x rl] ndc_bound [OF y tb] by blast
  have near_plane: "map_option vz (project (ComputeProjectionMatrix6 left right top' bottom near far) (Vec3 x' y' (- near))) =
            Some (- 1)"
    by (simp add: project_near [OF f n])
  have far_plane: "map_option vz (project (ComputeProjectionMatrix6 left right top' bottom near far) (Vec3 x' y' (- far))) =
            Some 1"
    by (rule project_far [OF f z])
  from box near_plane far_plane show ?thesis
    by blast
qed

theorem C3_projection_witness:
  "(1::real) \<noteq> - 1 \<and> (2::real) \<noteq> 1 \<and> (0::real) < 1 \<and> (2::real) \<noteq> 0
   \<and> (- 1::real) \<le> 1 \<and> (1::real) \<le> 1
   \<and> (\<exists>u v. project (ComputeProjectionMatrix6 (- 1) 1 1 (- 1) 1 2) (Vec3 1 1 (- 1)) =
            Some (Vec3 u v (- 1)) \<and> - 1 \<le> u \<and> u \<le> 1 \<and> - 1 \<le> v \<and> v \<le> 1)
   \<and> map_option vz (project (ComputeProjectionMatrix6 (- 1) 1 1 (- 1) 1 2) (Vec3 0 0 (- 1))) = Some (- 1)
   \<and> map_option vz (project (ComputeProjectionMatrix6 (- 1) 1 1 (- 1) 1 2) (Vec3 0 0 (- 2))) = Some 1"
proof -
  have h: "(1::real) \<noteq> - 1" "(2::real) \<noteq> 1" "(0::real) < 1" "(2::real) \<noteq> 0"
    "(- 1::real) \<le> 1" "(1::real) \<le> 1"
    by simp_all
  show ?thesis
    using h C3_projection [OF h(1) h(1) h(2) h(3) h(4) h(5) h(6) h(5) h(6), of 0 0]
    by simp
qed

section \<open>Bounds of \<open>pi\<close> and the constant \<open>kHalfPi\<close>\<close>

lemma cos_poly16:
  fixes x :: real
  shows "(\<Sum>m<16. cos_coeff m * x ^ m) =
     1 - x^2 / 2 + x^4 / 24 - x^6 / 720 + x^8 / 40320 - x^10 / 3628800
       + x^12 / 479001600 - x^14 / 87178291200"
  by (simp add: lessThan_nat_numeral lessThan_Suc cos_coeff_def fact_numeral)

lemma cos_bounds16:
  fixes x :: real
  assumes "0 < x"
  shows "\<bar>cos x - (1 - x^2 / 2 + x^4 / 24 - x^6 / 720 + x^8 / 40320 - x^10 / 3628800
       + x^12 / 479001600 - x^14 / 87178291200)\<bar> \<le> x ^ 16 / 20922789888000"
proof -
  obtain t where "cos x = (\<Sum>m<16. cos_coeff m * x ^ m) + (cos (t + 1/2 * real 16 * pi) / fact 16) * x ^ 16"
    using Maclaurin_cos_expansion2 [OF assms, of 16] by auto
  then have eq: "cos x - (1 - x^2 / 2 + x^4 / 24 - x^6 / 720 + x^8 / 40320 - x^10 / 3628800
       + x^12 / 479001600 - x^14 / 87178291200) =
      cos (t + 1/2 * real 16 * pi) * (x ^ 16 / 20922789888000)"
    by (simp add: cos_poly16 fact_numeral)
  have "\<bar>cos (t + 1/2 * real 16 * pi) * (x ^ 16 / 20922789888000)\<bar> \<le> 1 * (x ^ 16 / 20922789888000)"
    unfolding abs_mult using assms by (intro mult_mono) (simp_all add: abs_cos_le_one)
  then have bound: "\<bar>cos (t + 1/2 * real 16 * pi) * (x ^ 16 / 20922789888000)\<bar> \<le> x ^ 16 / 20922789888000"
    by (simp only: mult_1)
  show ?thesis
    unfolding eq by (rule bound)
qed

lemma pi_lower: "3.14159265 < pi"
proof -
  define x :: real where "x = 1.570796325"
  have "0 < x" by (simp add: x_def)
  then have "(1 - x^2 / 2 + x^4 / 24 - x^6 / 720 + x^8 / 40320 - x^10 / 3628800
       + x^12 / 479001600 - x^14 / 87178291200) - x ^ 16 / 20922789888000 \<le> cos x"
    using cos_bounds16 [of x] by linarith
  moreover have "0 < (1 - x^2 / 2 + x^4 / 24 - x^6 / 720 + x^8 / 40320 - x^10 / 3628800
       + x^12 / 479001600 - x^14 / 87178291200) - x ^ 16 / 20922789888000"
    by (simp add: x_def power_divide)
  ultimately have "cos (pi / 2) < cos x" by simp
  moreover have "x \<le> pi" using pi_ge_two by (simp add: x_def)
  ultimately have "x < pi / 2"
    using \<open>0 < x\<close> by (subst (asm) cos_mono_less_eq) simp_all
  then show ?thesis by (simp add: x_def)
qed

lemma pi_upper: "pi < 3.14159267"
proof -
  define x :: real where "x = 1.570796335"
  have "0 < x" by (simp add: x_def)
  then have "cos x \<le> (1 - x^2 / 2 + x^4 / 24 - x^6 / 720 + x^8 / 40320 - x^10 / 3628800
       + x^12 / 479001600 - x^14 / 87178291200) + x ^ 16 / 20922789888000"
    using cos_bounds16 [of x] by linarith
  moreover have "(1 - x^2 / 2 + x^4 / 24 - x^6 / 720 + x^8 / 40320 - x^10 / 3628800
       + x^12 / 479001600 - x^14 / 87178291200) + x ^ 16 / 20922789888000 < 0"
    by (simp add: x_def power_divide)
  ultimately have "cos x < cos (pi / 2)" by simp
  moreover have "x \<le> pi" using pi_ge_two by (simp add: x_def)
  ultimately have "pi / 2 < x"
    using \<open>0 < x\<close> by (subst (asm) cos_mono_less_eq) simp_all
  then show ?thesis by (simp add: x_def)
qed

lemma kHalfPi_value: "kHalfPi = 13176795 / 8388608"
  by (simp add: kHalfPi_def M_PI_float_def)

lemma M_PI_float_nearest: "\<bar>M_PI_float - pi\<bar> < 1 / 2 ^ 23"
  using pi_lower pi_upper by (simp add: M_PI_float_def abs_less_iff)

lemma kHalfPi_above: "pi / 2 + 35 / 10 ^ 9 < kHalfPi"
  using pi_upper by (simp add: kHalfPi_value)

lemma kHalfPi_below: "kHalfPi < pi / 2 + 5 / 10 ^ 8"
  using pi_lower by (simp add: kHalfPi_value)

lemma pi_coarse: "3.1414 < pi" "pi < 3.1418"
  using pi_lower pi_upper by simp_all

section \<open>The cotangent\<close>

lemma tan_offset_bounds:
  "0 < tan (kHalfPi - pi / 2)" "tan (kHalfPi - pi / 2) < 1 / 10 ^ 7"
proof -
  define d where "d = kHalfPi - pi / 2"
  have d0: "0 < d" and d1: "d < 5 / 10 ^ 8"
    using kHalfPi_above kHalfPi_below by (simp_all add: d_def)
  have dpi: "d < pi / 2" "d \<le> pi / 3" "pi / 3 \<le> pi"
    using d1 pi_ge_two by simp_all
  show pos: "0 < tan (kHalfPi - pi / 2)"
    using tan_gt_zero [OF d0 dpi(1)] by (simp add: d_def)
  have s: "sin d \<le> d"
    using d0 by (intro sin_x_le_x) simp
  have "cos (pi / 3) \<le> cos d"
    using d0 dpi by (intro cos_monotone_0_pi_le) simp_all
  then have c: "1 / 2 \<le> cos d"
    by (simp add: cos_60)
  have "sin d < (1 / 10 ^ 7) * (1 / 2)"
    using s d1 by simp
  also have "\<dots> \<le> (1 / 10 ^ 7) * cos d"
    using c by simp
  finally have "sin d / cos d < 1 / 10 ^ 7"
    using c by (simp add: field_simps)
  then show "tan (kHalfPi - pi / 2) < 1 / 10 ^ 7"
    by (simp add: tan_def d_def)
qed

lemma ComputeCotangent_shift:
  "ComputeCotangent x = inverse (tan (x - (kHalfPi - pi / 2)))"
proof -
  have "kHalfPi - x = pi / 2 - (x - (kHalfPi - pi / 2))"
    by simp
  then show ?thesis
    unfolding ComputeCotangent_def by (simp only: tan_cot)
qed





lemma tan_second_quadrant:
  assumes "pi / 2 < x" "x < pi"
  shows "tan x < 0"
proof -
  have "tan (x - pi) < 0"
    using assms by (intro tan_less_zero) simp_all
  moreover have "tan (x - pi) = tan x"
    using tan_periodic_pi [of "x - pi"] by simp
  ultimately show ?thesis
    by simp
qed

lemma ComputeCotangent_small_negative:
  assumes "0 \<le> a" "a \<le> 1 / 2 ^ 25"
  shows "ComputeCotangent a < 0"
proof -
  have "pi / 2 < kHalfPi - a"
    using kHalfPi_above assms by simp
  moreover have "kHalfPi - a < pi"
    using kHalfPi_below assms pi_ge_two by simp
  ultimately show ?thesis
    unfolding ComputeCotangent_def by (rule tan_second_quadrant)
qed



section \<open>The two forms of the projection on a symmetric frustum\<close>

lemma arctan_le_self:
  assumes "0 < y"
  shows "arctan y \<le> y"
proof -
  have "\<exists>z. 0 < z \<and> z < y \<and> arctan y - arctan 0 = (y - 0) * inverse (1 + z\<^sup>2)"
    using assms by (intro MVT2) (auto intro: DERIV_arctan)
  then obtain z where z: "arctan y = y * inverse (1 + z\<^sup>2)"
    by auto
  have "inverse (1 + z\<^sup>2) \<le> 1"
    by (simp add: inverse_le_1_iff)
  then have "y * inverse (1 + z\<^sup>2) \<le> y * 1"
    using assms by (intro mult_left_mono) simp_all
  then show ?thesis
    by (simp add: z)
qed

lemma within_tolerance_refl: "0 \<le> eps \<Longrightarrow> within_tolerance eps a a"
  by (simp add: within_tolerance_def)

lemma within_tolerance_divide:
  assumes "within_tolerance eps a b"
  shows "within_tolerance eps (a / c) (b / c)"
proof -
  have "\<bar>a / c - b / c\<bar> = \<bar>a - b\<bar> / \<bar>c\<bar>"
    by (simp add: diff_divide_distrib [symmetric])
  also have "\<dots> \<le> (eps * \<bar>b\<bar>) / \<bar>c\<bar>"
    using assms by (intro divide_right_mono) (simp_all add: within_tolerance_def)
  finally show ?thesis
    by (simp add: within_tolerance_def)
qed

lemma ComputeProjectionMatrix4_rows:
  "ComputeProjectionMatrix4 field_of_view aspect_ratio near far =
     Mat4 (Vec4 (ComputeCotangent (0.5 * field_of_view) / aspect_ratio) 0 0 0)
          (Vec4 0 (ComputeCotangent (0.5 * field_of_view)) 0 0)
          (Vec4 0 0 (- (near + far) / (far - near)) (- 2 * near * far / (far - near)))
          (Vec4 0 0 (- 1) 0)"
  by (simp add: ComputeProjectionMatrix4_def Let_def)

lemma symmetric_frustum_rows:
  "ComputeProjectionMatrix6 (- right) right top' (- top') near far =
     Mat4 (Vec4 (near / right) 0 0 0)
          (Vec4 0 (near / top') 0 0)
          (Vec4 0 0 (- (near + far) / (far - near)) (- 2 * near * far / (far - near)))
          (Vec4 0 0 (- 1) 0)"
  by (simp add: ComputeProjectionMatrix6_rows add.commute mult.commute mult.left_commute)

text \<open>
  The cotangent that the program computes, in terms of the tangent \<open>T\<close> of the angle
  and the tangent \<open>d\<close> of the offset of \<open>kHalfPi\<close> from \<open>pi / 2\<close>.
\<close>

lemma ComputeCotangent_tan:
  assumes T: "tan x = T" and pos: "0 < T"
  shows "ComputeCotangent x =
           (1 + T * tan (kHalfPi - pi / 2)) / (T - tan (kHalfPi - pi / 2))"
proof -
  define e where "e = kHalfPi - pi / 2"
  define d where "d = tan e"
  have d: "0 < d"
    using tan_offset_bounds by (simp add: d_def e_def)
  have cx: "cos x \<noteq> 0"
  proof
    assume "cos x = 0"
    then have "tan x = 0" by (simp add: tan_def)
    with T pos show False by simp
  qed
  have ce: "cos e \<noteq> 0"
  proof
    assume "cos e = 0"
    then have "tan e = 0" by (simp add: tan_def)
    with d show False by (simp add: d_def)
  qed
  have "cos (x - e) = cos x * cos e * (1 + tan x * tan e)"
    using cx ce by (simp add: cos_diff tan_def field_simps)
  moreover have "0 < 1 + tan x * tan e"
    using T pos d by (simp add: d_def add_pos_nonneg)
  ultimately have cxe: "cos (x - e) \<noteq> 0"
    using cx ce by simp
  have "tan (x - e) = (T - d) / (1 + T * d)"
    using tan_diff [OF cx ce cxe] by (simp add: T d_def)
  then show ?thesis
    unfolding ComputeCotangent_shift by (simp add: e_def d_def)
qed

lemma scale_within_tolerance:
  fixes T d :: real
  assumes d: "0 < d" "d < 1 / 10 ^ 7" and T: "1 / 50 \<le> T" "T \<le> 50"
  shows "within_tolerance (1 / 100000) ((1 + T * d) / (T - d)) (1 / T)"
proof -
  have Tpos: "0 < T" and Td: "0 < T - d"
    using d T by simp_all
  have "0 \<le> (T - 1 / 50) * (50 - T)"
    using T by (intro mult_nonneg_nonneg) simp_all
  moreover have "(T - 1 / 50) * (50 - T) = (50 + 1 / 50) * T - T * T - 1"
    by (simp add: field_simps)
  ultimately have quad: "T * T + 1 \<le> (50 + 1 / 50) * T"
    by linarith
  have "d * (1 + T * T) \<le> (1 / 10 ^ 7) * (1 + T * T)"
    using d by (intro mult_right_mono) (simp_all add: add_nonneg_nonneg)
  also have "\<dots> \<le> (1 / 10 ^ 7) * ((50 + 1 / 50) * T)"
    using quad by simp
  also have "\<dots> \<le> (1 / 100000) * (T - d)"
    using d T by simp
  finally have num: "d * (1 + T * T) \<le> (1 / 100000) * (T - d)" .
  have "(1 + T * d) / (T - d) - 1 / T = d * (1 + T * T) / (T * (T - d))"
    using Tpos Td by (simp add: field_simps)
  also have "\<dots> \<le> ((1 / 100000) * (T - d)) / (T * (T - d))"
    using num Tpos Td by (intro divide_right_mono) simp_all
  also have "\<dots> = (1 / 100000) * (1 / T)"
    using Tpos Td by simp
  finally have up: "(1 + T * d) / (T - d) - 1 / T \<le> (1 / 100000) * (1 / T)" .
  have "0 \<le> d * (1 + T * T) / (T * (T - d))"
    using d Tpos Td by (intro divide_nonneg_nonneg mult_nonneg_nonneg add_nonneg_nonneg) simp_all
  also have "\<dots> = (1 + T * d) / (T - d) - 1 / T"
    using Tpos Td by (simp add: field_simps)
  finally have low: "0 \<le> (1 + T * d) / (T - d) - 1 / T" .
  from up low Tpos show ?thesis
    by (simp add: within_tolerance_def)
qed

lemma narrow_cotangent_negative:
  "ComputeCotangent (0.5 * (2 * arctan (1 / 2 ^ 25))) < 0"
proof -
  have "0 \<le> arctan (1 / 2 ^ 25)"
    by simp
  moreover have "arctan (1 / 2 ^ 25) \<le> 1 / 2 ^ 25"
    by (rule arctan_le_self) simp
  ultimately have "ComputeCotangent (arctan (1 / 2 ^ 25)) < 0"
    by (rule ComputeCotangent_small_negative)
  then show ?thesis
    by simp
qed

text \<open>
  Claim C2 says that the two forms agree within tolerance on every symmetric frustum.
  On the frustum with \<open>right = top = 2 ^ - 25\<close>, \<open>near = 1\<close> and \<open>far = 2\<close>, with the field
  of view \<open>2 arctan (top / near)\<close> and the aspect ratio 1, the general form has the
  vertical scale \<open>2 ^ 25\<close> and the form with four parameters has a negative one:
  \<open>kHalfPi\<close> is above \<open>pi / 2\<close> by more than half of this field of view.
\<close>

theorem C2_counterexample:
  "(1 / 2 ^ 25 :: real) \<noteq> 0 \<and> (0::real) < 1 \<and> (2::real) \<noteq> 1
   \<and> tan (2 * arctan (1 / 2 ^ 25) / 2) = (1 / 2 ^ 25) / 1
   \<and> (1::real) = (1 / 2 ^ 25) / (1 / 2 ^ 25)
   \<and> hy (row1 (ComputeProjectionMatrix6 (- (1 / 2 ^ 25)) (1 / 2 ^ 25) (1 / 2 ^ 25) (- (1 / 2 ^ 25)) 1 2))
       = 2 ^ 25
   \<and> hy (row1 (ComputeProjectionMatrix4 (2 * arctan (1 / 2 ^ 25)) 1 1 2)) < 0
   \<and> \<not> mat4_within (1 / 100000)
         (ComputeProjectionMatrix4 (2 * arctan (1 / 2 ^ 25)) 1 1 2)
         (ComputeProjectionMatrix6 (- (1 / 2 ^ 25)) (1 / 2 ^ 25) (1 / 2 ^ 25) (- (1 / 2 ^ 25)) 1 2)"
proof -
  define c where "c = ComputeCotangent (0.5 * (2 * arctan (1 / 2 ^ 25)))"
  have c: "c < 0"
    unfolding c_def by (rule narrow_cotangent_negative)
  have derived: "tan (2 * arctan (1 / 2 ^ 25) / 2) = (1 / 2 ^ 25) / 1"
    by (simp add: tan_arctan)
  have general: "hy (row1 (ComputeProjectionMatrix6 (- (1 / 2 ^ 25)) (1 / 2 ^ 25) (1 / 2 ^ 25)
      (- (1 / 2 ^ 25)) 1 2)) = 2 ^ 25"
    by (simp add: symmetric_frustum_rows)
  have fov_form: "hy (row1 (ComputeProjectionMatrix4 (2 * arctan (1 / 2 ^ 25)) 1 1 2)) = c"
    by (simp add: ComputeProjectionMatrix4_rows c_def)
  have "\<not> within_tolerance (1 / 100000) c (2 ^ 25)"
    using c by (simp add: within_tolerance_def)
  then have apart: "\<not> mat4_within (1 / 100000)
         (ComputeProjectionMatrix4 (2 * arctan (1 / 2 ^ 25)) 1 1 2)
         (ComputeProjectionMatrix6 (- (1 / 2 ^ 25)) (1 / 2 ^ 25) (1 / 2 ^ 25) (- (1 / 2 ^ 25)) 1 2)"
    unfolding mat4_within_def vec4_within_def general fov_form by blast
  from c derived general fov_form apart show ?thesis
    by simp
qed

text \<open>
  Claim C2, amended. For every symmetric frustum (\<open>left = - right\<close>, \<open>bottom = - top\<close>,
  with \<open>right\<close> not zero, \<open>near\<close> positive and \<open>far\<close> different from \<open>near\<close>) whose ratio
  \<open>top / near\<close> is between \<open>1 / 50\<close> and \<open>50\<close> (a field of view between about 2.3 and
  177.7 degrees), and a field of view and an aspect ratio derived from its bounds
  (\<open>tan (field_of_view / 2) = top / near\<close> and \<open>aspect_ratio = right / top\<close>), the general
  form with six parameters and the form with four parameters return the same matrix
  within the relative tolerance \<open>1 / 100000\<close>: the third and the fourth row and every
  zero coefficient are the same, and the two scales differ by at most that fraction.
\<close>

theorem C2_symmetric_frustum:
  assumes r: "right \<noteq> 0" and n: "0 < near" and f: "far \<noteq> near"
    and lo: "near / 50 \<le> top'" and hi: "top' \<le> 50 * near"
    and fov: "tan (field_of_view / 2) = top' / near"
    and asp: "aspect_ratio = right / top'"
  shows "mat4_within (1 / 100000)
           (ComputeProjectionMatrix4 field_of_view aspect_ratio near far)
           (ComputeProjectionMatrix6 (- right) right top' (- top') near far)
       \<and> row2 (ComputeProjectionMatrix4 field_of_view aspect_ratio near far) =
           row2 (ComputeProjectionMatrix6 (- right) right top' (- top') near far)
       \<and> row3 (ComputeProjectionMatrix4 field_of_view aspect_ratio near far) =
           row3 (ComputeProjectionMatrix6 (- right) right top' (- top') near far)"
proof -
  define T where "T = top' / near"
  define d where "d = tan (kHalfPi - pi / 2)"
  define c where "c = ComputeCotangent (0.5 * field_of_view)"
  have T: "1 / 50 \<le> T" "T \<le> 50"
    using n lo hi by (simp_all add: T_def field_simps)
  then have Tpos: "0 < T"
    by simp
  then have t: "top' \<noteq> 0"
    using n by (auto simp: T_def)
  have d: "0 < d" "d < 1 / 10 ^ 7"
    using tan_offset_bounds by (simp_all add: d_def)
  have "tan (0.5 * field_of_view) = T"
    using fov by (simp add: T_def)
  then have "c = (1 + T * d) / (T - d)"
    unfolding c_def d_def using Tpos by (rule ComputeCotangent_tan)
  then have "within_tolerance (1 / 100000) c (1 / T)"
    using scale_within_tolerance [OF d T] by simp
  then have y: "within_tolerance (1 / 100000) c (near / top')"
    using n t by (simp add: T_def)
  from within_tolerance_divide [OF y, of aspect_ratio]
  have x: "within_tolerance (1 / 100000) (c / aspect_ratio) (near / right)"
    using asp t by simp
  have z: "within_tolerance (1 / 100000) v v" for v
    by (rule within_tolerance_refl) simp
  show ?thesis
    unfolding ComputeProjectionMatrix4_rows symmetric_frustum_rows c_def [symmetric]
      mat4_within_def vec4_within_def mat4.sel vec4.sel
    using x y z by simp
qed

theorem C2_symmetric_frustum_witness:
  "(1::real) \<noteq> 0 \<and> (0::real) < 1 \<and> (2::real) \<noteq> 1 \<and> (1::real) / 50 \<le> 1 \<and> (1::real) \<le> 50 * 1
   \<and> tan (pi / 2 / 2) = 1 / 1
   \<and> mat4_within (1 / 100000)
        (ComputeProjectionMatrix4 (pi / 2) 1 1 2) (ComputeProjectionMatrix6 (- 1) 1 1 (- 1) 1 2)
   \<and> ComputeProjectionMatrix6 (- 1) 1 1 (- 1) 1 2 =
       Mat4 (Vec4 1 0 0 0) (Vec4 0 1 0 0) (Vec4 0 0 (- 3) (- 4)) (Vec4 0 0 (- 1) 0)"
proof -
  have h: "(1::real) \<noteq> 0" "(0::real) < 1" "(2::real) \<noteq> 1" "(1::real) / 50 \<le> 1"
    "(1::real) \<le> 50 * 1"
    by simp_all
  have fov: "tan (pi / 2 / 2) = (1::real) / 1"
    by (simp add: tan_45)
  have asp: "(1::real) = 1 / 1"
    by simp
  have "mat4_within (1 / 100000)
        (ComputeProjectionMatrix4 (pi / 2) 1 1 2) (ComputeProjectionMatrix6 (- 1) 1 1 (- 1) 1 2)"
    using C2_symmetric_frustum [OF h(1) h(2) h(3) h(4) h(5) fov asp] by blast
  moreover have "ComputeProjectionMatrix6 (- 1) 1 1 (- 1) 1 2 =
       Mat4 (Vec4 1 0 0 0) (Vec4 0 1 0 0) (Vec4 0 0 (- 3) (- 4)) (Vec4 0 0 (- 1) 0)"
    by (simp add: ComputeProjectionMatrix6_rows)
  ultimately show ?thesis
    using h fov by blast
qed

section \<open>The loop of \<^verbatim>\<open>main\<close>\<close>

lemma main_model_loop_body: "main_model (loop_body time s) = main_model s"
  by (simp add: loop_body_def Let_def)

lemma main_angle_loop_body: "main_angle (loop_body time s) = frame_angle time"
  by (simp add: loop_body_def Let_def)

text \<open>
  Claim C7. In each iteration the rotation angle is \<open>angular_speed * elapsed_seconds *
  (pi / 180)\<close>, with the angular speed 50 of \<open>main\<close>: it depends on the elapsed time
  only, not on the state before the iteration. For the elapsed time 1 the angle is
  \<open>50 * pi / 180\<close>, which is 0.8727 up to 0.0001.
\<close>

theorem C7_frame_angle:
  "main_angle (loop_body time s) = rotation_speed * time * (pi / 180)
   \<and> rotation_speed = 50
   \<and> main_angle (loop_body time s) = main_angle (loop_body time s')
   \<and> main_angle (loop_body 1 s) = 50 * pi / 180
   \<and> \<bar>main_angle (loop_body 1 s) - 0.8727\<bar> < 0.0001
   \<and> uniform_model (main_gl (loop_body time s)) =
       mat4_mul (ComputeTranslation (Vec3 0 0 (- 5)))
         (ComputeRotation (Vec3 0 1 0) (rotation_speed * time * (pi / 180)))"
proof -
  have a: "main_angle (loop_body time s) = rotation_speed * time * (pi / 180)"
    by (simp add: main_angle_loop_body frame_angle_def)
  have r: "rotation_speed = 50"
    by (simp add: rotation_speed_def)
  have pure: "main_angle (loop_body time s) = main_angle (loop_body time s')"
    by (simp add: main_angle_loop_body)
  have b: "main_angle (loop_body 1 s) = 50 * pi / 180"
    by (simp add: main_angle_loop_body frame_angle_def rotation_speed_def)
  have c: "uniform_model (main_gl (loop_body time s)) =
       mat4_mul (ComputeTranslation (Vec3 0 0 (- 5)))
         (ComputeRotation (Vec3 0 1 0) (rotation_speed * time * (pi / 180)))"
    by (simp add: loop_body_def Let_def uniform_model_RenderScene frame_angle_def)
  have approx: "\<bar>main_angle (loop_body 1 s) - 0.8727\<bar> < 0.0001"
    unfolding b using pi_coarse by linarith
  from a r pure b approx c show ?thesis
    by blast
qed

text \<open>
  Claim C9. Every iteration of the loop leaves the renderable entity as it was: the
  orientation, the position, the vertices and the indices of the model after the
  iteration are those before it, and so they are after any number of iterations. The
  angle of the frame is kept in a variable of \<open>main\<close> and is not written to the entity.
\<close>

theorem C9_entity_unchanged:
  "main_model (loop_body time s) = main_model s
   \<and> orientation (main_model (loop_body time s)) = orientation (main_model s)
   \<and> position (main_model (loop_body time s)) = position (main_model s)
   \<and> vertices (main_model (loop_body time s)) = vertices (main_model s)
   \<and> indices (main_model (loop_body time s)) = indices (main_model s)
   \<and> main_model (render_loop es s) = main_model s
   \<and> main_model (render_loop es (main_setup ctx)) =
       \<lparr>orientation = Vec3 0 0 0, position = Vec3 0 0 0,
        vertices = main_vertices, indices = main_indices\<rparr>"
proof -
  have loop: "main_model (render_loop es s) = main_model s" for s
  proof (induction es arbitrary: s)
    case Nil
    show ?case by simp
  next
    case (Cons e es)
    show ?case
    proof (cases "glfwWindowShouldClose e")
      case True
      then show ?thesis by simp
    next
      case False
      then have "main_model (render_loop (e # es) s) = main_model (loop_body (glfwGetTime e) s)"
        by (simp add: Cons.IH)
      then show ?thesis
        by (simp add: main_model_loop_body)
    qed
  qed
  have "main_model (render_loop es (main_setup ctx)) = main_model (main_setup ctx)"
    by (rule loop)
  then have init: "main_model (render_loop es (main_setup ctx)) =
       \<lparr>orientation = Vec3 0 0 0, position = Vec3 0 0 0,
        vertices = main_vertices, indices = main_indices\<rparr>"
    by (simp add: main_setup_def)
  from loop [of s] init show ?thesis
    by (simp add: main_model_loop_body)
qed

section \<open>The projection set up by \<^verbatim>\<open>main\<close>\<close>

lemma aspect_ratio_main_one: "aspect_ratio_main = 1"
  by (simp add: aspect_ratio_main_def int_div_def kWindowWidth_def kWindowHeight_def)

lemma cot_eighth_pos: "0 < ComputeCotangent (0.5 * (45 * pi / 180))"
proof -
  have "0 < kHalfPi - 0.5 * (45 * pi / 180)" "kHalfPi - 0.5 * (45 * pi / 180) < pi / 2"
    unfolding kHalfPi_value using pi_coarse by simp_all
  then show ?thesis
    unfolding ComputeCotangent_def by (rule tan_gt_zero)
qed

text \<open>
  Claim C10. In \<open>main\<close> the aspect ratio handed to the form with four parameters is
  exactly 1, since \<open>kWindowWidth / kWindowHeight\<close> is a division of the integers 640 and
  480, and the field of view is the number 45, taken as radians. The matrix computed at
  setup is \<open>ComputeProjectionMatrix4 45 1 0.1 10\<close>, which is not the matrix of a frustum
  of 45 degrees and aspect ratio 4:3.
\<close>

theorem C10_setup_projection:
  "aspect_ratio_main = 1
   \<and> int_div kWindowWidth kWindowHeight = 1
   \<and> field_of_view_main = 45
   \<and> main_projection_matrix (main_setup ctx) = ComputeProjectionMatrix4 45 1 0.1 10
   \<and> main_projection_matrix (render_loop es (main_setup ctx)) = ComputeProjectionMatrix4 45 1 0.1 10
   \<and> ComputeProjectionMatrix4 45 1 0.1 10 \<noteq> ComputeProjectionMatrix4 (45 * pi / 180) (640 / 480) 0.1 10"
proof -
  have keep: "main_projection_matrix (render_loop es s) = main_projection_matrix s" for s
    by (induction es arbitrary: s) (simp_all add: loop_body_def Let_def)
  have init: "main_projection_matrix (main_setup ctx) = ComputeProjectionMatrix4 45 1 0.1 10"
    by (simp add: main_setup_def aspect_ratio_main_one field_of_view_main_def)
  have differ: "ComputeProjectionMatrix4 45 1 0.1 10 \<noteq>
      ComputeProjectionMatrix4 (45 * pi / 180) (640 / 480) 0.1 10"
  proof
    assume eq: "ComputeProjectionMatrix4 45 1 0.1 10 =
      ComputeProjectionMatrix4 (45 * pi / 180) (640 / 480) 0.1 10"
    define c where "c = ComputeCotangent (0.5 * (45 * pi / 180))"
    define d where "d = ComputeCotangent (0.5 * 45)"
    from eq have "hx (row0 (ComputeProjectionMatrix4 45 1 0.1 10)) =
        hx (row0 (ComputeProjectionMatrix4 (45 * pi / 180) (640 / 480) 0.1 10))"
      and "hy (row1 (ComputeProjectionMatrix4 45 1 0.1 10)) =
        hy (row1 (ComputeProjectionMatrix4 (45 * pi / 180) (640 / 480) 0.1 10))"
      by simp_all
    then have "d = c / (640 / 480)" and "d = c"
      by (simp_all add: ComputeProjectionMatrix4_def Let_def c_def d_def)
    then have "c = 0"
      by simp
    with cot_eighth_pos show False
      by (simp add: c_def)
  qed
  from keep [of "main_setup ctx"] init differ show ?thesis
    by (simp add: aspect_ratio_main_one field_of_view_main_def int_div_def
        kWindowWidth_def kWindowHeight_def)
qed

end
